theory Spec2Isabelle
  imports Complex_Main "HOL-Library.Sublist"
begin

section \<open>JavaScript values and string operations used by the component\<close>

text \<open>
  A JavaScript number is a finite value, NaN or one of the two infinities. The
  finite values are over-approximated by the reals: the component never does
  arithmetic on a number, it only tests it for truthiness and passes it on.
\<close>

datatype jsnumber = Finite real | NaN | PosInfinity | NegInfinity

text \<open>
  The values that \<open>JSON.parse\<close> can return, and \<open>undefined\<close>, the value of
  reading a property that an object does not have.
\<close>

datatype jsvalue =
    JUndefined
  | JNull
  | JBool bool
  | JNum jsnumber
  | JStr string
  | JArr "jsvalue list"
  | JObj "(string \<times> jsvalue) list"

text \<open>
  What can be thrown, or be the reason of a rejected promise: the two errors
  of the language that the handlers can meet, and an error of a platform
  service, carried as its text.
\<close>

datatype exn = SyntaxError | TypeError | PlatformError string

text \<open>JavaScript's ToBoolean, as used by \<open>&&\<close> and \<open>if\<close>.\<close>

fun truthy :: "jsvalue \<Rightarrow> bool" where
  "truthy JUndefined = False"
| "truthy JNull = False"
| "truthy (JBool b) = b"
| "truthy (JNum (Finite r)) = (r \<noteq> 0)"
| "truthy (JNum NaN) = False"
| "truthy (JNum PosInfinity) = True"
| "truthy (JNum NegInfinity) = True"
| "truthy (JStr s) = (s \<noteq> [])"
| "truthy (JArr xs) = True"
| "truthy (JObj kvs) = True"

text \<open>
  Reading one of the properties \<open>type\<close>, \<open>height\<close> or \<open>url\<close> of a parsed
  value: on \<open>null\<close> and \<open>undefined\<close> the access throws a TypeError; an object
  yields its own member or \<open>undefined\<close>; every other value (boolean, number,
  string, array) has no property of these names and yields \<open>undefined\<close>.
\<close>

fun get_prop :: "jsvalue \<Rightarrow> string \<Rightarrow> exn + jsvalue" where
  "get_prop JUndefined k = Inl TypeError"
| "get_prop JNull k = Inl TypeError"
| "get_prop (JObj kvs) k = (case map_of kvs k of None \<Rightarrow> Inr JUndefined | Some v \<Rightarrow> Inr v)"
| "get_prop (JBool b) k = Inr JUndefined"
| "get_prop (JNum n) k = Inr JUndefined"
| "get_prop (JStr s) k = Inr JUndefined"
| "get_prop (JArr xs) k = Inr JUndefined"

text \<open>\<open>String.prototype.startsWith\<close> and \<open>String.prototype.includes\<close>.\<close>

definition startsWith :: "string \<Rightarrow> string \<Rightarrow> bool" where
  "startsWith s p = prefix p s"

fun includes_str :: "string \<Rightarrow> string \<Rightarrow> bool" where
  "includes_str [] sub = (sub = [])"
| "includes_str (c # cs) sub = (prefix sub (c # cs) \<or> includes_str cs sub)"

section \<open>Component state and effects\<close>

text \<open>
  The three \<open>useState\<close> cells of the component. \<open>height\<close> holds whatever value
  \<open>setHeight\<close> was given, so it is a JavaScript value.
\<close>

record widget_state =
  loading :: bool
  height :: jsvalue
  userLocation :: "(jsnumber \<times> jsnumber) option"

definition initial_state :: widget_state where
  "initial_state = \<lparr> loading = True, height = JNum (Finite 600), userLocation = None \<rparr>"

text \<open>
  What a handler does to the world outside the component state: a call of
  \<open>Linking.openURL\<close>, a \<open>console.error\<close> from the \<open>.catch\<close> of its promise, a
  \<open>console.log\<close> from the location effect.
\<close>

datatype effect =
    OpenURL jsvalue
  | ConsoleError string exn
  | ConsoleLog string exn

text \<open>
  How a promise of a platform service settles. \<open>Linking.openURL\<close> returns a
  promise; the external opener is a black box that either fulfils it or
  rejects it.
\<close>

datatype 'a promise = Fulfilled 'a | Rejected exn

type_synonym url_opener = "jsvalue \<Rightarrow> unit promise"

text \<open>
  \<open>Linking.openURL(u).catch((err) => console.error('Failed to open URL:', err))\<close>:
  the request, followed by the report if the promise is rejected.
\<close>

definition openURL_catch :: "url_opener \<Rightarrow> jsvalue \<Rightarrow> effect list" where
  "openURL_catch opener u =
     (case opener u of
        Fulfilled _ \<Rightarrow> [OpenURL u]
      | Rejected err \<Rightarrow> [OpenURL u, ConsoleError ''Failed to open URL:'' err])"

section \<open>The navigation-request handler\<close>

text \<open>
  \<open>handleNavigationRequest\<close> returns whether the embedded document may load
  the URL, together with the effects of the call.
\<close>

definition allowed_in_document :: "string \<Rightarrow> bool" where
  "allowed_in_document url =
     (url = ''about:blank'' \<or>
      startsWith url ''data:'' \<or>
      includes_str url ''widget.prxengage.com'' \<or>
      includes_str url ''api.prxengage.com'' \<or>
      includes_str url ''api-staging.prxengage.com'')"

definition handleNavigationRequest :: "url_opener \<Rightarrow> string \<Rightarrow> bool \<times> effect list" where
  "handleNavigationRequest opener url =
     (if allowed_in_document url then (True, [])
      else if startsWith url ''http'' then (False, openURL_catch opener (JStr url))
      else (True, []))"

section \<open>The message handler\<close>

text \<open>
  \<open>JSON.parse\<close> is a built-in of the platform: it is a parameter, \<open>None\<close> when
  it throws a SyntaxError. The two \<open>if\<close> statements of the \<open>try\<close> block follow
  in source order, each reading \<open>data.type\<close> and then, only if the
  discriminator matches, its own field.
\<close>

type_synonym json_parser = "string \<Rightarrow> jsvalue option"

text \<open>\<open>if (data.type === 'resize' && data.height) { setHeight(data.height); }\<close>\<close>

definition resize_branch :: "jsvalue \<Rightarrow> widget_state \<Rightarrow> exn + widget_state" where
  "resize_branch data st =
     (case get_prop data ''type'' of
        Inl e \<Rightarrow> Inl e
      | Inr ty \<Rightarrow>
          if ty = JStr ''resize'' then
            (case get_prop data ''height'' of
               Inl e \<Rightarrow> Inl e
             | Inr h \<Rightarrow> if truthy h then Inr (st\<lparr>height := h\<rparr>) else Inr st)
          else Inr st)"

text \<open>\<open>if (data.type === 'external_link' && data.url) { Linking.openURL(data.url).catch(...); }\<close>\<close>

definition external_link_branch :: "url_opener \<Rightarrow> jsvalue \<Rightarrow> exn + effect list" where
  "external_link_branch opener data =
     (case get_prop data ''type'' of
        Inl e \<Rightarrow> Inl e
      | Inr ty \<Rightarrow>
          if ty = JStr ''external_link'' then
            (case get_prop data ''url'' of
               Inl e \<Rightarrow> Inl e
             | Inr u \<Rightarrow> if truthy u then Inr (openURL_catch opener u) else Inr [])
          else Inr [])"

text \<open>
  The body of the \<open>try\<close> block: the exception it ends with, if any, and the
  state and effects reached by then.
\<close>

definition handleMessage_try ::
  "json_parser \<Rightarrow> url_opener \<Rightarrow> widget_state \<Rightarrow> string \<Rightarrow> exn option \<times> widget_state \<times> effect list" where
  "handleMessage_try JSON_parse opener st msg =
     (case JSON_parse msg of
        None \<Rightarrow> (Some SyntaxError, st, [])
      | Some data \<Rightarrow>
          (case resize_branch data st of
             Inl e \<Rightarrow> (Some e, st, [])
           | Inr st1 \<Rightarrow>
               (case external_link_branch opener data of
                  Inl e \<Rightarrow> (Some e, st1, [])
                | Inr effs \<Rightarrow> (None, st1, effs))))"

text \<open>
  The \<open>catch\<close> clause is empty: whatever the body threw, the handler returns
  normally. The first component is the exception that leaves the handler.
\<close>

definition handleMessage ::
  "json_parser \<Rightarrow> url_opener \<Rightarrow> widget_state \<Rightarrow> string \<Rightarrow> exn option \<times> widget_state \<times> effect list" where
  "handleMessage JSON_parse opener st msg =
     (case handleMessage_try JSON_parse opener st msg of
        (thrown, st1, effs) \<Rightarrow> (None, st1, effs))"

section \<open>The location effect run on mount\<close>

text \<open>
  The two awaited calls of the effect settle as the location service decides:
  \<open>requestForegroundPermissionsAsync\<close> with a status text, and
  \<open>getCurrentPositionAsync\<close>, asked only after a grant, with a latitude and
  a longitude. A rejected promise is an exception at its \<open>await\<close>.
\<close>

definition locationEffect_try ::
  "string promise \<Rightarrow> (jsnumber \<times> jsnumber) promise \<Rightarrow> widget_state \<Rightarrow> exn + widget_state" where
  "locationEffect_try permission position st =
     (case permission of
        Rejected e \<Rightarrow> Inl e
      | Fulfilled status \<Rightarrow>
          if status = ''granted'' then
            (case position of
               Rejected e \<Rightarrow> Inl e
             | Fulfilled (lat, long) \<Rightarrow> Inr (st\<lparr>userLocation := Some (lat, long)\<rparr>))
          else Inr st)"

text \<open>The \<open>catch\<close> clause logs the error; nothing leaves the effect.\<close>

definition locationEffect ::
  "string promise \<Rightarrow> (jsnumber \<times> jsnumber) promise \<Rightarrow> widget_state
     \<Rightarrow> exn option \<times> widget_state \<times> effect list" where
  "locationEffect permission position st =
     (case locationEffect_try permission position st of
        Inl e \<Rightarrow> (None, st, [ConsoleLog ''Location permission denied or error:'' e])
      | Inr st1 \<Rightarrow> (None, st1, []))"

section \<open>The injected script\<close>

text \<open>
  The template literals of \<open>getInjectedJavaScript\<close>, cut at their
  interpolations. Interpolating a number applies the platform's
  number-to-string conversion, a parameter here.
\<close>

definition locationOverride_pre :: string where
  \<open>locationOverride_pre =
   ''\<newline>'' @
   ''        // Override geolocation with native location\<newline>'' @
   ''        const nativeCoords = { latitude: ''\<close>

definition locationOverride_mid :: string where
  \<open>locationOverride_mid =
   '', longitude: ''\<close>

definition locationOverride_post :: string where
  \<open>locationOverride_post =
   '' };\<newline>'' @
   ''\<newline>'' @
   ''        navigator.geolocation.getCurrentPosition = function(success, error, options) {\<newline>'' @
   ''          success({\<newline>'' @
   ''            coords: {\<newline>'' @
   ''              latitude: nativeCoords.latitude,\<newline>'' @
   ''              longitude: nativeCoords.longitude,\<newline>'' @
   ''              accuracy: 100,\<newline>'' @
   ''              altitude: null,\<newline>'' @
   ''              altitudeAccuracy: null,\<newline>'' @
   ''              heading: null,\<newline>'' @
   ''              speed: null\<newline>'' @
   ''            },\<newline>'' @
   ''            timestamp: Date.now()\<newline>'' @
   ''          });\<newline>'' @
   ''        };\<newline>'' @
   ''      ''\<close>

definition script_pre :: string where
  \<open>script_pre =
   ''\<newline>'' @
   ''      (function() {\<newline>'' @
   ''        ''\<close>

definition script_post :: string where
  \<open>script_post =
   ''\<newline>'' @
   ''\<newline>'' @
   ''        // Intercept window.open to open links in native browser\<newline>'' @
   ''        const originalOpen = window.open;\<newline>'' @
   ''        window.open = function(url, target, features) {\<newline>'' @
   ''          if (url && window.ReactNativeWebView) {\<newline>'' @
   ''            window.ReactNativeWebView.postMessage(JSON.stringify({\<newline>'' @
   ''              type: 'external_link',\<newline>'' @
   ''              url: url\<newline>'' @
   ''            }));\<newline>'' @
   ''            return null;\<newline>'' @
   ''          }\<newline>'' @
   ''          return originalOpen.call(window, url, target, features);\<newline>'' @
   ''        };\<newline>'' @
   ''\<newline>'' @
   ''        // Also intercept link clicks with target="_blank"\<newline>'' @
   ''        document.addEventListener('click', function(e) {\<newline>'' @
   ''          const link = e.target.closest('a[target="_blank"]');\<newline>'' @
   ''          if (link && link.href) {\<newline>'' @
   ''            e.preventDefault();\<newline>'' @
   ''            window.ReactNativeWebView.postMessage(JSON.stringify({\<newline>'' @
   ''              type: 'external_link',\<newline>'' @
   ''              url: link.href\<newline>'' @
   ''            }));\<newline>'' @
   ''          }\<newline>'' @
   ''        }, true);\<newline>'' @
   ''\<newline>'' @
   ''        // Report height changes\<newline>'' @
   ''        function reportHeight() {\<newline>'' @
   ''          const height = Math.max(\<newline>'' @
   ''            document.body.scrollHeight,\<newline>'' @
   ''            document.documentElement.scrollHeight\<newline>'' @
   ''          );\<newline>'' @
   ''          if (window.ReactNativeWebView) {\<newline>'' @
   ''            window.ReactNativeWebView.postMessage(JSON.stringify({ type: 'resize', height }));\<newline>'' @
   ''          }\<newline>'' @
   ''        }\<newline>'' @
   ''\<newline>'' @
   ''        new ResizeObserver(reportHeight).observe(document.body);\<newline>'' @
   ''        window.addEventListener('load', () => setTimeout(reportHeight, 500));\<newline>'' @
   ''        setInterval(reportHeight, 1000); // Periodic check for dynamic content\<newline>'' @
   ''\<newline>'' @
   ''        true;\<newline>'' @
   ''      })();\<newline>'' @
   ''    ''\<close>

definition locationOverride :: "(jsnumber \<Rightarrow> string) \<Rightarrow> widget_state \<Rightarrow> string" where
  "locationOverride numToString st =
     (case userLocation st of
        None \<Rightarrow> []
      | Some (lat, long) \<Rightarrow>
          locationOverride_pre @ numToString lat @ locationOverride_mid @
          numToString long @ locationOverride_post)"

definition getInjectedJavaScript :: "(jsnumber \<Rightarrow> string) \<Rightarrow> widget_state \<Rightarrow> string" where
  "getInjectedJavaScript numToString st =
     script_pre @ locationOverride numToString st @ script_post"

text \<open>
  The function that the override text assigns to
  \<open>navigator.geolocation.getCurrentPosition\<close>, translated: it calls
  \<open>success\<close> once with a position built from \<open>nativeCoords\<close> and the clock,
  and never calls \<open>error\<close>. The model lists the callback calls it makes.
\<close>

record geo_coords =
  latitude :: jsvalue
  longitude :: jsvalue
  accuracy :: jsvalue
  altitude :: jsvalue
  altitudeAccuracy :: jsvalue
  heading :: jsvalue
  speed :: jsvalue

record geo_position =
  coords :: geo_coords
  timestamp :: jsvalue

datatype callback_call = SuccessCall geo_position | ErrorCall jsvalue

definition override_getCurrentPosition :: "jsnumber \<times> jsnumber \<Rightarrow> jsnumber \<Rightarrow> callback_call list" where
  "override_getCurrentPosition nativeCoords now =
     [SuccessCall
        \<lparr> coords =
            \<lparr> latitude = JNum (fst nativeCoords),
              longitude = JNum (snd nativeCoords),
              accuracy = JNum (Finite 100),
              altitude = JNull,
              altitudeAccuracy = JNull,
              heading = JNull,
              speed = JNull \<rparr>,
          timestamp = JNum now \<rparr>]"

section \<open>The markup and the rendered element\<close>

text \<open>
  The template literal \<open>html\<close>, cut at its interpolation and at the two ends
  of the JSON text inside the configuration \<open>script\<close> element.
\<close>

definition html_head :: string where
  \<open>html_head =
   ''\<newline>'' @
   ''    <!DOCTYPE html>\<newline>'' @
   ''    <html>\<newline>'' @
   ''    <head>\<newline>'' @
   ''      <meta name="viewport" content="width=device-width, initial-scale=1, maximum-scale=1, user-scalable=no">\<newline>'' @
   ''      <style>\<newline>'' @
   ''        * { box-sizing: border-box; }\<newline>'' @
   ''        html, body {\<newline>'' @
   ''          margin: 0;\<newline>'' @
   ''          padding: 0;\<newline>'' @
   ''          overflow-x: hidden;\<newline>'' @
   ''          -webkit-overflow-scrolling: touch;\<newline>'' @
   ''        }\<newline>'' @
   ''      </style>\<newline>'' @
   ''    </head>\<newline>'' @
   ''    <body>\<newline>'' @
   ''      <script type="application/json" data-prxengage-config>''\<close>

definition config_pre :: string where
  \<open>config_pre =
   ''{\<newline>'' @
   ''  "widget_id": "''\<close>

definition config_post :: string where
  \<open>config_post =
   ''",\<newline>'' @
   ''  "consent_position": "above-condition",\<newline>'' @
   ''  "button_background_color": "#233b65",\<newline>'' @
   ''  "text_accent_color": "#120c0e",\<newline>'' @
   ''  "max_height_mode": "fill",\<newline>'' @
   ''  "container_style": "none"\<newline>'' @
   ''}''\<close>

definition html_tail :: string where
  \<open>html_tail =
   ''</script>\<newline>'' @
   ''      <prxengage-widget></prxengage-widget>\<newline>'' @
   ''      <script src="https://widget.prxengage.com/widget.js"></script>\<newline>'' @
   ''    </body>\<newline>'' @
   ''    </html>\<newline>'' @
   ''  ''\<close>

definition html :: "string \<Rightarrow> string" where
  "html widgetId = html_head @ config_pre @ widgetId @ config_post @ html_tail"

record webview_props =
  source_html :: string
  style_height :: jsvalue
  injectedJavaScript :: string
  originWhitelist :: "string list"
  javaScriptEnabled :: bool
  domStorageEnabled :: bool
  geolocationEnabled :: bool
  scrollEnabled :: bool
  showsVerticalScrollIndicator :: bool
  showsHorizontalScrollIndicator :: bool
  allowsInlineMediaPlayback :: bool
  mediaPlaybackRequiresUserAction :: bool
  mixedContentMode :: string
  allowFileAccess :: bool
  allowUniversalAccessFromFileURLs :: bool
  cacheEnabled :: bool

text \<open>
  The element the component returns: an inline frame with its \<open>srcDoc\<close>,
  height, title and \<open>allow\<close> attribute, or the loader flag and the WebView.
\<close>

datatype rendered =
    IFrame string nat string string
  | NativeWebView bool webview_props

datatype handler_prop = OnLoadEnd | OnMessage | OnShouldStartLoadWithRequest

definition PRxWidget :: "string \<Rightarrow> (jsnumber \<Rightarrow> string) \<Rightarrow> string \<Rightarrow> widget_state \<Rightarrow> rendered" where
  "PRxWidget platform_OS numToString widgetId st =
     (if platform_OS = ''web'' then
        IFrame (html widgetId) 700 ''PRx Widget'' ''geolocation''
      else
        NativeWebView (loading st)
          \<lparr> source_html = html widgetId,
            style_height = height st,
            injectedJavaScript = getInjectedJavaScript numToString st,
            originWhitelist = [''*''],
            javaScriptEnabled = True,
            domStorageEnabled = True,
            geolocationEnabled = True,
            scrollEnabled = False,
            showsVerticalScrollIndicator = False,
            showsHorizontalScrollIndicator = False,
            allowsInlineMediaPlayback = True,
            mediaPlaybackRequiresUserAction = False,
            mixedContentMode = ''compatibility'',
            allowFileAccess = True,
            allowUniversalAccessFromFileURLs = True,
            cacheEnabled = True \<rparr>)"

text \<open>
  The handler props of the returned element: the inline frame is given none,
  the WebView is given \<open>onLoadEnd\<close>, \<open>onMessage\<close> and
  \<open>onShouldStartLoadWithRequest\<close>.
\<close>

fun handler_props :: "rendered \<Rightarrow> handler_prop list" where
  "handler_props (IFrame srcDoc h title allow) = []"
| "handler_props (NativeWebView loader props) = [OnLoadEnd, OnMessage, OnShouldStartLoadWithRequest]"

section \<open>Events of a component instance\<close>

text \<open>
  What can happen to a mounted component: the embedded document ends a load,
  posts a message or asks to navigate, and the location effect started on
  mount settles.
\<close>

datatype event =
    LoadEnd
  | Message string
  | NavigationRequest string
  | LocationSettled "string promise" "(jsnumber \<times> jsnumber) promise"

fun handle_event ::
  "json_parser \<Rightarrow> url_opener \<Rightarrow> widget_state \<Rightarrow> event \<Rightarrow> widget_state \<times> effect list" where
  "handle_event JSON_parse opener st LoadEnd = (st\<lparr>loading := False\<rparr>, [])"
| "handle_event JSON_parse opener st (Message msg) =
     (case handleMessage JSON_parse opener st msg of (thrown, st1, effs) \<Rightarrow> (st1, effs))"
| "handle_event JSON_parse opener st (NavigationRequest url) =
     (st, snd (handleNavigationRequest opener url))"
| "handle_event JSON_parse opener st (LocationSettled permission position) =
     (case locationEffect permission position st of (thrown, st1, effs) \<Rightarrow> (st1, effs))"

text \<open>
  An event of the embedded document reaches its handler only through the
  handler prop of the rendered element; the location effect belongs to the
  component itself and runs on every platform.
\<close>

fun event_prop :: "event \<Rightarrow> handler_prop option" where
  "event_prop LoadEnd = Some OnLoadEnd"
| "event_prop (Message msg) = Some OnMessage"
| "event_prop (NavigationRequest url) = Some OnShouldStartLoadWithRequest"
| "event_prop (LocationSettled permission position) = None"

definition deliver ::
  "string \<Rightarrow> (jsnumber \<Rightarrow> string) \<Rightarrow> string \<Rightarrow> json_parser \<Rightarrow> url_opener
     \<Rightarrow> widget_state \<Rightarrow> event \<Rightarrow> widget_state \<times> effect list" where
  "deliver platform_OS numToString widgetId JSON_parse opener st ev =
     (case event_prop ev of
        None \<Rightarrow> handle_event JSON_parse opener st ev
      | Some p \<Rightarrow>
          if p \<in> set (handler_props (PRxWidget platform_OS numToString widgetId st))
          then handle_event JSON_parse opener st ev
          else (st, []))"

fun run ::
  "string \<Rightarrow> (jsnumber \<Rightarrow> string) \<Rightarrow> string \<Rightarrow> json_parser \<Rightarrow> url_opener
     \<Rightarrow> widget_state \<Rightarrow> event list \<Rightarrow> widget_state \<times> effect list" where
  "run platform_OS numToString widgetId JSON_parse opener st [] = (st, [])"
| "run platform_OS numToString widgetId JSON_parse opener st (ev # evs) =
     (case deliver platform_OS numToString widgetId JSON_parse opener st ev of
        (st1, effs1) \<Rightarrow>
          (case run platform_OS numToString widgetId JSON_parse opener st1 evs of
             (st2, effs2) \<Rightarrow> (st2, effs1 @ effs2)))"

section \<open>Reading the injected script\<close>

text \<open>
  The text after the first occurrence of a pattern, and the texts before and
  after it, if it occurs.
\<close>

fun after_first :: "string \<Rightarrow> string \<Rightarrow> string option" where
  "after_first pat [] = (if pat = [] then Some [] else None)"
| "after_first pat (c # cs) =
     (if prefix pat (c # cs) then Some (drop (length pat) (c # cs))
      else after_first pat cs)"

fun split_at :: "string \<Rightarrow> string \<Rightarrow> (string \<times> string) option" where
  "split_at pat [] = (if pat = [] then Some ([], []) else None)"
| "split_at pat (c # cs) =
     (if prefix pat (c # cs) then Some ([], drop (length pat) (c # cs))
      else (case split_at pat cs of
              None \<Rightarrow> None
            | Some (before, after) \<Rightarrow> Some (c # before, after)))"

text \<open>
  The assignment statement of the override, in the spelling of the source:
  the program text that \<open>override_getCurrentPosition\<close> translates.
\<close>

definition override_statement_text :: string where
  \<open>override_statement_text =
   ''\<newline>'' @
   ''\<newline>'' @
   ''        navigator.geolocation.getCurrentPosition = function(success, error, options) {\<newline>'' @
   ''          success({\<newline>'' @
   ''            coords: {\<newline>'' @
   ''              latitude: nativeCoords.latitude,\<newline>'' @
   ''              longitude: nativeCoords.longitude,\<newline>'' @
   ''              accuracy: 100,\<newline>'' @
   ''              altitude: null,\<newline>'' @
   ''              altitudeAccuracy: null,\<newline>'' @
   ''              heading: null,\<newline>'' @
   ''              speed: null\<newline>'' @
   ''            },\<newline>'' @
   ''            timestamp: Date.now()\<newline>'' @
   ''          });\<newline>'' @
   ''        };''\<close>

text \<open>
  What running a script does to the document's \<open>getCurrentPosition\<close>. The
  script is searched for the declaration of \<open>nativeCoords\<close> and, right
  after it, the assignment statement. If both are there, the embedded
  document's script engine reads the two numeric texts of the declaration
  (\<open>evalNumber\<close>, a built-in of that engine) and the function is installed
  with them. \<open>None\<close>: the script does not hold the two statements in this
  spelling, and the document keeps its own \<open>getCurrentPosition\<close>.
\<close>

definition script_override ::
  "(string \<Rightarrow> jsnumber) \<Rightarrow> string \<Rightarrow> (jsnumber \<Rightarrow> callback_call list) option" where
  "script_override evalNumber script =
     (case after_first ''const nativeCoords = { latitude: '' script of
        None \<Rightarrow> None
      | Some r1 \<Rightarrow>
          (case split_at '', longitude: '' r1 of
             None \<Rightarrow> None
           | Some (latText, r2) \<Rightarrow>
               (case split_at '' };'' r2 of
                  None \<Rightarrow> None
                | Some (longText, r3) \<Rightarrow>
                    if prefix override_statement_text r3
                    then Some (override_getCurrentPosition
                                 (evalNumber latText, evalNumber longText))
                    else None)))"

text \<open>
  The override in force in the embedded document of a rendered element: the
  WebView runs its \<open>injectedJavaScript\<close> prop in the document; the inline
  frame is given no script.
\<close>

fun installed_override ::
  "(string \<Rightarrow> jsnumber) \<Rightarrow> rendered \<Rightarrow> (jsnumber \<Rightarrow> callback_call list) option" where
  "installed_override evalNumber (IFrame srcDoc h title allow) = None"
| "installed_override evalNumber (NativeWebView loader props) =
     script_override evalNumber (injectedJavaScript props)"

section \<open>Reading the configuration block of the markup\<close>

text \<open>
  The content of the configuration \<open>script\<close> element: the text between its
  start tag and the next \<open>script\<close> end tag.
\<close>

definition config_block :: "string \<Rightarrow> string option" where
  \<open>config_block markup =
     (case after_first ''<script type="application/json" data-prxengage-config>'' markup of
        None \<Rightarrow> None
      | Some rest \<Rightarrow>
          (case split_at ''</script>'' rest of
             None \<Rightarrow> None
           | Some (content, after) \<Rightarrow> Some content))\<close>

text \<open>
  A reader of JSON text for objects whose members are all strings, which is
  the shape of the configuration block. It follows the JSON grammar: white
  space between tokens; in a string, a quote ends it, a backslash starts an
  escape, a control character is an error, every other character stands for
  itself. The reader goes through the text character by character; it does
  not decode \<open>u\<close> escapes and answers \<open>None\<close> for them, as for
  every text that is not such an object.
\<close>

definition json_ws :: "char \<Rightarrow> bool" where
  "json_ws c = (c = CHR '' '' \<or> c = CHR 0x0A \<or> c = CHR 0x0D \<or> c = CHR 0x09)"

definition json_control :: "char \<Rightarrow> bool" where
  "json_control c = ((of_char c :: nat) < 32)"

definition json_unescape :: "char \<Rightarrow> char option" where
  "json_unescape c =
     (if c = CHR 0x22 then Some (CHR 0x22)
      else if c = CHR 0x5C then Some (CHR 0x5C)
      else if c = CHR ''/'' then Some (CHR ''/'')
      else if c = CHR ''b'' then Some (CHR 0x08)
      else if c = CHR ''f'' then Some (CHR 0x0C)
      else if c = CHR ''n'' then Some (CHR 0x0A)
      else if c = CHR ''r'' then Some (CHR 0x0D)
      else if c = CHR ''t'' then Some (CHR 0x09)
      else None)"

datatype json_mode =
    JBegin
  | JKeyOrEnd
  | JNextKey
  | JKey
  | JKeyEscape
  | JColon
  | JValueStart
  | JValue
  | JValueEscape
  | JCommaOrEnd
  | JDone
  | JFail

text \<open>
  The reader's state: its mode, the string being read, the key of the member
  being read, and the members read so far.
\<close>

type_synonym json_state = "json_mode \<times> string \<times> string \<times> (string \<times> string) list"

fun json_step :: "json_state \<Rightarrow> char \<Rightarrow> json_state" where
  "json_step (JBegin, buf, key, ms) c =
     (if json_ws c then (JBegin, buf, key, ms)
      else if c = CHR ''{'' then (JKeyOrEnd, buf, key, ms)
      else (JFail, buf, key, ms))"
| "json_step (JKeyOrEnd, buf, key, ms) c =
     (if json_ws c then (JKeyOrEnd, buf, key, ms)
      else if c = CHR 0x22 then (JKey, [], key, ms)
      else if c = CHR ''}'' then (JDone, buf, key, ms)
      else (JFail, buf, key, ms))"
| "json_step (JNextKey, buf, key, ms) c =
     (if json_ws c then (JNextKey, buf, key, ms)
      else if c = CHR 0x22 then (JKey, [], key, ms)
      else (JFail, buf, key, ms))"
| "json_step (JKey, buf, key, ms) c =
     (if c = CHR 0x22 then (JColon, [], buf, ms)
      else if c = CHR 0x5C then (JKeyEscape, buf, key, ms)
      else if json_control c then (JFail, buf, key, ms)
      else (JKey, buf @ [c], key, ms))"
| "json_step (JKeyEscape, buf, key, ms) c =
     (case json_unescape c of
        None \<Rightarrow> (JFail, buf, key, ms)
      | Some d \<Rightarrow> (JKey, buf @ [d], key, ms))"
| "json_step (JColon, buf, key, ms) c =
     (if json_ws c then (JColon, buf, key, ms)
      else if c = CHR '':'' then (JValueStart, buf, key, ms)
      else (JFail, buf, key, ms))"
| "json_step (JValueStart, buf, key, ms) c =
     (if json_ws c then (JValueStart, buf, key, ms)
      else if c = CHR 0x22 then (JValue, [], key, ms)
      else (JFail, buf, key, ms))"
| "json_step (JValue, buf, key, ms) c =
     (if c = CHR 0x22 then (JCommaOrEnd, [], key, ms @ [(key, buf)])
      else if c = CHR 0x5C then (JValueEscape, buf, key, ms)
      else if json_control c then (JFail, buf, key, ms)
      else (JValue, buf @ [c], key, ms))"
| "json_step (JValueEscape, buf, key, ms) c =
     (case json_unescape c of
        None \<Rightarrow> (JFail, buf, key, ms)
      | Some d \<Rightarrow> (JValue, buf @ [d], key, ms))"
| "json_step (JCommaOrEnd, buf, key, ms) c =
     (if json_ws c then (JCommaOrEnd, buf, key, ms)
      else if c = CHR '','' then (JNextKey, buf, key, ms)
      else if c = CHR ''}'' then (JDone, buf, key, ms)
      else (JFail, buf, key, ms))"
| "json_step (JDone, buf, key, ms) c =
     (if json_ws c then (JDone, buf, key, ms) else (JFail, buf, key, ms))"
| "json_step (JFail, buf, key, ms) c = (JFail, buf, key, ms)"

definition read_string_object :: "string \<Rightarrow> (string \<times> string) list option" where
  "read_string_object text =
     (case foldl json_step (JBegin, [], [], []) text of
        (mode, buf, key, ms) \<Rightarrow> if mode = JDone then Some ms else None)"

text \<open>
  The value of a member of the object read: as in \<open>JSON.parse\<close>, the last
  member of a name is the one that counts.
\<close>

definition member_value :: "string \<Rightarrow> (string \<times> string) list \<Rightarrow> string option" where
  "member_value name ms = map_of (rev ms) name"

text \<open>The members of the configuration block embedded in a markup.\<close>

definition embedded_config :: "string \<Rightarrow> (string \<times> string) list option" where
  "embedded_config markup =
     (case config_block markup of
        None \<Rightarrow> None
      | Some block \<Rightarrow> read_string_object block)"

text \<open>
  The characters that are safe in an identifier: those that stand for
  themselves in a JSON string and cannot begin an end tag.
\<close>

definition plain_char :: "char \<Rightarrow> bool" where
  "plain_char c =
     (c \<noteq> CHR 0x22 \<and> c \<noteq> CHR 0x5C \<and> c \<noteq> CHR ''<'' \<and> \<not> json_control c)"

section \<open>Notions of the specification and example inputs\<close>

text \<open>
  The specification calls an allow-list origin a trusted URL prefix. Its
  reading of a URL that matches a trusted origin: the URL begins with the
  scheme and host of the widget's static-asset origin or of one of the two
  API origins.
\<close>

definition spec_trusted_prefixes :: "string list" where
  "spec_trusted_prefixes =
     [''https://widget.prxengage.com'', ''http://widget.prxengage.com'',
      ''https://api.prxengage.com'', ''http://api.prxengage.com'',
      ''https://api-staging.prxengage.com'', ''http://api-staging.prxengage.com'']"

definition spec_matches_trusted_origin :: "string \<Rightarrow> bool" where
  "spec_matches_trusted_origin url = list_ex (startsWith url) spec_trusted_prefixes"

text \<open>
  The specification's message contract: an object whose discriminator is
  \<open>resize\<close> with a number as height, or \<open>external_link\<close> with a string as
  url. The discriminator is the member that the handler reads, \<open>type\<close>.
\<close>

definition conforms :: "jsvalue \<Rightarrow> bool" where
  "conforms data =
     (case data of
        JObj kvs \<Rightarrow>
          (map_of kvs ''type'' = Some (JStr ''resize'') \<and>
             (case map_of kvs ''height'' of Some (JNum n) \<Rightarrow> True | _ \<Rightarrow> False)) \<or>
          (map_of kvs ''type'' = Some (JStr ''external_link'') \<and>
             (case map_of kvs ''url'' of Some (JStr u) \<Rightarrow> True | _ \<Rightarrow> False))
      | _ \<Rightarrow> False)"

text \<open>Two external openers: one that opens every URL, one that opens none.\<close>

definition accepting_opener :: url_opener where
  "accepting_opener u = Fulfilled ()"

definition rejecting_opener :: url_opener where
  "rejecting_opener u = Rejected (PlatformError ''no handler'')"

text \<open>
  An excerpt of \<open>JSON.parse\<close>: its results on the message texts of the
  examples below. A text outside the excerpt is answered like an unparseable
  one; the examples use it that way only for \<open>not json\<close>.
\<close>

definition example_parse :: json_parser where
  \<open>example_parse msg =
     (if msg = ''{"type":"resize","height":842}'' then
        Some (JObj [(''type'', JStr ''resize''), (''height'', JNum (Finite 842))])
      else if msg = ''{"type":"resize","height":0}'' then
        Some (JObj [(''type'', JStr ''resize''), (''height'', JNum (Finite 0))])
      else if msg = ''{"type":"resize"}'' then
        Some (JObj [(''type'', JStr ''resize'')])
      else if msg = ''{"type":"resize","height":"tall"}'' then
        Some (JObj [(''type'', JStr ''resize''), (''height'', JStr ''tall'')])
      else if msg = ''{"type":"external_link","url":"https://example.com/x"}'' then
        Some (JObj [(''type'', JStr ''external_link''), (''url'', JStr ''https://example.com/x'')])
      else if msg = ''{"type":"external_link","url":""}'' then
        Some (JObj [(''type'', JStr ''external_link''), (''url'', JStr '''')])
      else if msg = ''{"type":"external_link"}'' then
        Some (JObj [(''type'', JStr ''external_link'')])
      else if msg = ''{"type":"ping"}'' then
        Some (JObj [(''type'', JStr ''ping'')])
      else if msg = ''null'' then Some JNull
      else None)\<close>

text \<open>The identifier that the host shell (\<open>App\<close>) passes to the component.\<close>

definition WIDGET_ID :: string where
  "WIDGET_ID = ''dd0ed535-3143-4209-876d-8779f0cde888''"

text \<open>
  An excerpt of the number-to-string conversion and of the embedded
  document's reading of a numeric literal, on the two coordinates of the
  examples.
\<close>

definition example_numToString :: "jsnumber \<Rightarrow> string" where
  "example_numToString n =
     (if n = Finite 37 then ''37'' else if n = Finite (- 122) then ''-122'' else ''NaN'')"

definition example_evalNumber :: "string \<Rightarrow> jsnumber" where
  "example_evalNumber s =
     (if s = ''37'' then Finite 37 else if s = ''-122'' then Finite (- 122) else NaN)"

section \<open>Properties of the navigation-request handler\<close>


text \<open>
  The handler's three outcomes: a URL that passes the allow test loads
  in-document; any other URL that starts with \<open>http\<close> is handed to the
  external opener and vetoed; every remaining URL loads in-document.
\<close>

lemma handleNavigationRequest_allowed:
  "allowed_in_document url \<Longrightarrow> handleNavigationRequest opener url = (True, [])"
  by (simp add: handleNavigationRequest_def)

lemma handleNavigationRequest_external:
  "\<not> allowed_in_document url \<Longrightarrow> startsWith url ''http'' \<Longrightarrow>
   handleNavigationRequest opener url = (False, openURL_catch opener (JStr url))"
  by (simp add: handleNavigationRequest_def)

lemma handleNavigationRequest_fail_open:
  "\<not> allowed_in_document url \<Longrightarrow> \<not> startsWith url ''http'' \<Longrightarrow>
   handleNavigationRequest opener url = (True, [])"
  by (simp add: handleNavigationRequest_def)

text \<open>The two examples of the specification.\<close>

lemma widget_asset_allowed:
  "handleNavigationRequest opener ''https://widget.prxengage.com/asset.js'' = (True, [])"
  by (simp add: handleNavigationRequest_def allowed_in_document_def startsWith_def)

lemma evil_origin_vetoed:
  "handleNavigationRequest opener ''https://evil.example.com'' =
     (False, openURL_catch opener (JStr ''https://evil.example.com''))"
  by (simp add: handleNavigationRequest_def allowed_in_document_def startsWith_def)

text \<open>
  Claim C1. The handler is to let a request proceed in-document only for the
  blank document, a data-scheme payload or a URL of a trusted origin, and to
  hand every other web URL to the external opener. The allow test looks for
  the host names anywhere in the URL, so a web URL of a foreign origin that
  merely mentions a trusted host name, here in its query, loads in-document
  and no external-open request is made, although it matches no trusted
  origin.
\<close>

theorem C1_foreign_origin_loads_in_document:
  "handleNavigationRequest opener ''https://evil.example.com/?r=widget.prxengage.com'' = (True, [])
   \<and> startsWith ''https://evil.example.com/?r=widget.prxengage.com'' ''https://evil.example.com/''
   \<and> startsWith ''https://evil.example.com/?r=widget.prxengage.com'' ''http''
   \<and> ''https://evil.example.com/?r=widget.prxengage.com'' \<noteq> ''about:blank''
   \<and> \<not> startsWith ''https://evil.example.com/?r=widget.prxengage.com'' ''data:''
   \<and> \<not> spec_matches_trusted_origin ''https://evil.example.com/?r=widget.prxengage.com''"
  by (simp add: handleNavigationRequest_def allowed_in_document_def startsWith_def
      spec_matches_trusted_origin_def spec_trusted_prefixes_def)

section \<open>Properties of the message handler\<close>

lemma handleMessage_unparseable:
  "JSON_parse msg = None \<Longrightarrow> handleMessage JSON_parse opener st msg = (None, st, [])"
  by (simp add: handleMessage_def handleMessage_try_def)

lemma handleMessage_parsed:
  "JSON_parse msg = Some data \<Longrightarrow>
   handleMessage JSON_parse opener st msg =
     (case resize_branch data st of
        Inl e \<Rightarrow> (None, st, [])
      | Inr st1 \<Rightarrow>
          (case external_link_branch opener data of
             Inl e \<Rightarrow> (None, st1, [])
           | Inr effs \<Rightarrow> (None, st1, effs)))"
  by (simp add: handleMessage_def handleMessage_try_def split: sum.splits)

text \<open>No exception leaves the handler, whatever the message.\<close>

lemma handleMessage_returns: "fst (handleMessage JSON_parse opener st msg) = None"
  by (simp add: handleMessage_def split: prod.splits)

text \<open>
  Claim C2, as stated: every resize message with a numeric height sets the
  container height to that number. It fails for the height 0: the message is
  parsed, the handler returns, and the height is still 600.
\<close>

theorem C2_zero_height_not_applied:
  \<open>example_parse ''{"type":"resize","height":0}'' =
      Some (JObj [(''type'', JStr ''resize''), (''height'', JNum (Finite 0))])
   \<and> handleMessage example_parse accepting_opener initial_state ''{"type":"resize","height":0}''
      = (None, initial_state, [])
   \<and> height initial_state = JNum (Finite 600)
   \<and> height initial_state \<noteq> JNum (Finite 0)\<close>
  by (simp add: example_parse_def handleMessage_parsed resize_branch_def
      external_link_branch_def initial_state_def)

text \<open>
  Claim C2, amended: a message whose parsed payload has the discriminator
  \<open>resize\<close> and a numeric height other than 0 and NaN sets the container
  height to exactly that number, whatever the number and whatever the state
  before (no clamping, no debouncing); nothing else changes, no effect is
  issued and the handler returns normally.
\<close>

theorem C2_resize_sets_height:
  assumes "JSON_parse msg = Some data"
    and "get_prop data ''type'' = Inr (JStr ''resize'')"
    and "get_prop data ''height'' = Inr (JNum h)"
    and "h \<noteq> Finite 0" and "h \<noteq> NaN"
  shows "handleMessage JSON_parse opener st msg = (None, st\<lparr>height := JNum h\<rparr>, [])"
proof -
  have "truthy (JNum h)" using assms(4,5) by (cases h) auto
  then show ?thesis using assms(1,2,3)
    by (simp add: handleMessage_parsed resize_branch_def external_link_branch_def)
qed

theorem C2_resize_sets_height_witness:
  \<open>handleMessage example_parse accepting_opener initial_state ''{"type":"resize","height":842}''
     = (None, initial_state\<lparr>height := JNum (Finite 842)\<rparr>, [])\<close>
  using C2_resize_sets_height [of example_parse \<open>''{"type":"resize","height":842}''\<close>
      "JObj [(''type'', JStr ''resize''), (''height'', JNum (Finite 842))]" "Finite 842"
      accepting_opener initial_state]
  by (simp add: example_parse_def)

text \<open>
  Claim C3, as stated: every external_link message with a string as url
  makes one external-open request for it. It fails for the empty string: the
  handler returns without any request.
\<close>

theorem C3_empty_url_not_opened:
  \<open>example_parse ''{"type":"external_link","url":""}'' =
      Some (JObj [(''type'', JStr ''external_link''), (''url'', JStr '''')])
   \<and> handleMessage example_parse accepting_opener initial_state ''{"type":"external_link","url":""}''
      = (None, initial_state, [])\<close>
  by (simp add: example_parse_def handleMessage_parsed resize_branch_def external_link_branch_def)

text \<open>
  Claim C3, amended: a message whose parsed payload has the discriminator
  \<open>external_link\<close> and a non-empty string as url makes exactly one
  external-open request, for exactly that string, and nothing else but the
  report of a rejected request: the state is unchanged, no exception leaves
  the handler, and the handler itself loads nothing into the embedded
  document.
\<close>

theorem C3_external_link_opens_url:
  assumes "JSON_parse msg = Some data"
    and "get_prop data ''type'' = Inr (JStr ''external_link'')"
    and "get_prop data ''url'' = Inr (JStr u)"
    and "u \<noteq> []"
  shows "handleMessage JSON_parse opener st msg =
           (None, st,
            OpenURL (JStr u) #
              (case opener (JStr u) of
                 Fulfilled x \<Rightarrow> []
               | Rejected e \<Rightarrow> [ConsoleError ''Failed to open URL:'' e]))"
  using assms
  by (simp add: handleMessage_parsed resize_branch_def external_link_branch_def openURL_catch_def
      split: promise.splits)

theorem C3_external_link_opens_url_witness:
  \<open>handleMessage example_parse accepting_opener initial_state
      ''{"type":"external_link","url":"https://example.com/x"}''
     = (None, initial_state, [OpenURL (JStr ''https://example.com/x'')])
   \<and> handleMessage example_parse rejecting_opener initial_state
      ''{"type":"external_link","url":"https://example.com/x"}''
     = (None, initial_state,
        [OpenURL (JStr ''https://example.com/x''),
         ConsoleError ''Failed to open URL:'' (PlatformError ''no handler'')])\<close>
  using C3_external_link_opens_url
      [of example_parse \<open>''{"type":"external_link","url":"https://example.com/x"}''\<close>
      "JObj [(''type'', JStr ''external_link''), (''url'', JStr ''https://example.com/x'')]"
      "''https://example.com/x''" accepting_opener initial_state]
    C3_external_link_opens_url
      [of example_parse \<open>''{"type":"external_link","url":"https://example.com/x"}''\<close>
      "JObj [(''type'', JStr ''external_link''), (''url'', JStr ''https://example.com/x'')]"
      "''https://example.com/x''" rejecting_opener initial_state]
  by (simp add: example_parse_def accepting_opener_def rejecting_opener_def)

text \<open>
  Claim C4, as stated: every message that cannot be parsed or does not
  conform to the message contract is discarded with no state change. It
  fails for a resize message whose height is a string: the payload does not
  conform, and the handler stores the string as the container height.
\<close>

theorem C4_nonnumeric_height_is_stored:
  \<open>example_parse ''{"type":"resize","height":"tall"}'' =
      Some (JObj [(''type'', JStr ''resize''), (''height'', JStr ''tall'')])
   \<and> \<not> conforms (JObj [(''type'', JStr ''resize''), (''height'', JStr ''tall'')])
   \<and> handleMessage example_parse accepting_opener initial_state ''{"type":"resize","height":"tall"}''
      = (None, initial_state\<lparr>height := JStr ''tall''\<rparr>, [])
   \<and> height (initial_state\<lparr>height := JStr ''tall''\<rparr>) \<noteq> height initial_state\<close>
  by (simp add: example_parse_def conforms_def handleMessage_parsed resize_branch_def
      external_link_branch_def initial_state_def)

text \<open>
  Claim C4, amended: a message that cannot be parsed, or whose parsed
  payload has neither the discriminator \<open>resize\<close> with a truthy height nor
  the discriminator \<open>external_link\<close> with a truthy url, is discarded: the
  state is unchanged, no external-open request or other effect is issued,
  and the handler returns normally.
\<close>

theorem C4_discarded_silently:
  assumes "JSON_parse msg = None \<or>
           (\<exists>data. JSON_parse msg = Some data \<and>
              \<not> (get_prop data ''type'' = Inr (JStr ''resize'') \<and>
                   (\<exists>h. get_prop data ''height'' = Inr h \<and> truthy h)) \<and>
              \<not> (get_prop data ''type'' = Inr (JStr ''external_link'') \<and>
                   (\<exists>u. get_prop data ''url'' = Inr u \<and> truthy u)))"
  shows "handleMessage JSON_parse opener st msg = (None, st, [])"
  using assms
proof
  assume "JSON_parse msg = None"
  then show ?thesis by (rule handleMessage_unparseable)
next
  assume "\<exists>data. JSON_parse msg = Some data \<and>
              \<not> (get_prop data ''type'' = Inr (JStr ''resize'') \<and>
                   (\<exists>h. get_prop data ''height'' = Inr h \<and> truthy h)) \<and>
              \<not> (get_prop data ''type'' = Inr (JStr ''external_link'') \<and>
                   (\<exists>u. get_prop data ''url'' = Inr u \<and> truthy u))"
  then obtain data where p: "JSON_parse msg = Some data"
    and r: "\<not> (get_prop data ''type'' = Inr (JStr ''resize'') \<and>
                   (\<exists>h. get_prop data ''height'' = Inr h \<and> truthy h))"
    and x: "\<not> (get_prop data ''type'' = Inr (JStr ''external_link'') \<and>
                   (\<exists>u. get_prop data ''url'' = Inr u \<and> truthy u))"
    by blast
  have rb: "resize_branch data st = Inr st \<or> (\<exists>e. resize_branch data st = Inl e)"
    using r by (auto simp: resize_branch_def split: sum.splits)
  have xb: "external_link_branch opener data = Inr [] \<or>
            (\<exists>e. external_link_branch opener data = Inl e)"
    using x by (auto simp: external_link_branch_def split: sum.splits)
  show ?thesis using rb xb p by (auto simp: handleMessage_parsed)
qed

theorem C4_discarded_silently_witness:
  \<open>handleMessage example_parse accepting_opener initial_state ''not json'' = (None, initial_state, [])
   \<and> handleMessage example_parse accepting_opener initial_state ''null'' = (None, initial_state, [])
   \<and> handleMessage example_parse accepting_opener initial_state ''{"type":"ping"}''
       = (None, initial_state, [])\<close>
  using C4_discarded_silently [of example_parse \<open>''not json''\<close> accepting_opener initial_state]
    C4_discarded_silently [of example_parse \<open>''null''\<close> accepting_opener initial_state]
    C4_discarded_silently [of example_parse \<open>''{"type":"ping"}''\<close> accepting_opener initial_state]
  by (simp add: example_parse_def)

text \<open>
  Claim C9. A message with the right discriminator and a falsy field is
  dropped: a resize message whose height is 0, NaN or absent, and an
  external_link message whose url is the empty string or absent, change no
  state and issue no external-open request. The test of the field is its
  truthiness.
\<close>

theorem C9_falsy_field_ignored:
  assumes "JSON_parse msg = Some data"
    and "(get_prop data ''type'' = Inr (JStr ''resize'') \<and>
          get_prop data ''height'' \<in> {Inr (JNum (Finite 0)), Inr (JNum NaN), Inr JUndefined})
         \<or> (get_prop data ''type'' = Inr (JStr ''external_link'') \<and>
          get_prop data ''url'' \<in> {Inr (JStr ''''), Inr JUndefined})"
  shows "handleMessage JSON_parse opener st msg = (None, st, [])"
proof -
  have rb: "resize_branch data st = Inr st"
    using assms(2) by (auto simp: resize_branch_def)
  have xb: "external_link_branch opener data = Inr []"
    using assms(2) by (auto simp: external_link_branch_def)
  show ?thesis using rb xb assms(1) by (simp add: handleMessage_parsed)
qed

theorem C9_falsy_field_ignored_witness:
  \<open>handleMessage example_parse accepting_opener initial_state ''{"type":"resize","height":0}''
     = (None, initial_state, [])
   \<and> handleMessage example_parse accepting_opener initial_state ''{"type":"resize"}''
     = (None, initial_state, [])
   \<and> handleMessage example_parse accepting_opener initial_state ''{"type":"external_link","url":""}''
     = (None, initial_state, [])
   \<and> handleMessage example_parse accepting_opener initial_state ''{"type":"external_link"}''
     = (None, initial_state, [])\<close>
  using
    C9_falsy_field_ignored [of example_parse \<open>''{"type":"resize","height":0}''\<close>
      "JObj [(''type'', JStr ''resize''), (''height'', JNum (Finite 0))]"
      accepting_opener initial_state]
    C9_falsy_field_ignored [of example_parse \<open>''{"type":"resize"}''\<close>
      "JObj [(''type'', JStr ''resize'')]" accepting_opener initial_state]
    C9_falsy_field_ignored [of example_parse \<open>''{"type":"external_link","url":""}''\<close>
      "JObj [(''type'', JStr ''external_link''), (''url'', JStr '''')]"
      accepting_opener initial_state]
    C9_falsy_field_ignored [of example_parse \<open>''{"type":"external_link"}''\<close>
      "JObj [(''type'', JStr ''external_link'')]" accepting_opener initial_state]
  by (simp add: example_parse_def)

text \<open>
  An absent member reads as \<open>undefined\<close>, and each value named in claim C9
  is falsy.
\<close>

lemma get_prop_absent: "map_of kvs k = None \<Longrightarrow> get_prop (JObj kvs) k = Inr JUndefined"
  by simp

lemma falsy_values:
  "\<not> truthy (JNum (Finite 0))" "\<not> truthy (JNum NaN)" "\<not> truthy JUndefined" "\<not> truthy (JStr [])"
  by simp_all

section \<open>Properties of the text readers\<close>

lemma after_first_length: "after_first pat s = Some r \<Longrightarrow> length pat \<le> length s"
proof (induction s)
  case Nil
  then show ?case by (simp split: if_splits)
next
  case (Cons c cs)
  show ?case
  proof (cases "prefix pat (c # cs)")
    case True
    then show ?thesis by (rule prefix_length_le)
  next
    case False
    then have "after_first pat cs = Some r" using Cons.prems by simp
    then have "length pat \<le> length cs" by (rule Cons.IH)
    then show ?thesis by simp
  qed
qed

lemma prefix_append_long:
  assumes "length pat \<le> length s"
  shows "prefix pat (s @ x) = prefix pat s"
proof
  assume "prefix pat (s @ x)"
  then have "prefix pat s \<or> (\<exists>us. pat = s @ us \<and> prefix us x)" by (simp add: prefix_append)
  then show "prefix pat s"
  proof
    assume "prefix pat s" then show ?thesis .
  next
    assume "\<exists>us. pat = s @ us \<and> prefix us x"
    then obtain us where u: "pat = s @ us" by blast
    then have "us = []" using assms by simp
    then show ?thesis using u by simp
  qed
next
  assume "prefix pat s"
  then show "prefix pat (s @ x)" by (rule prefix_prefix)
qed

lemma after_first_append:
  "after_first pat s = Some r \<Longrightarrow> after_first pat (s @ x) = Some (r @ x)"
proof (induction s)
  case Nil
  then show ?case by (cases x) (simp_all split: if_splits)
next
  case (Cons c cs)
  show ?case
  proof (cases "prefix pat (c # cs)")
    case True
    then have l: "length pat \<le> length (c # cs)" by (rule prefix_length_le)
    have d: "drop n (ys @ x) = drop n ys @ x" if "n \<le> length ys" for n and ys :: string
      using that by simp
    have "prefix pat ((c # cs) @ x)" using True by (rule prefix_prefix)
    then have "after_first pat ((c # cs) @ x) = Some (drop (length pat) ((c # cs) @ x))" by simp
    moreover have "r = drop (length pat) (c # cs)" using True Cons.prems by simp
    ultimately show ?thesis using d [OF l] by simp
  next
    case False
    then have r: "after_first pat cs = Some r" using Cons.prems by simp
    then have "length pat \<le> length cs" by (rule after_first_length)
    then have "length pat \<le> length (c # cs)" by simp
    then have "\<not> prefix pat ((c # cs) @ x)" using False prefix_append_long by blast
    then show ?thesis using Cons.IH [OF r] by simp
  qed
qed

lemma after_first_chars: "after_first pat s = Some r \<Longrightarrow> set pat \<subseteq> set s"
proof (induction s)
  case Nil
  then show ?case by (simp split: if_splits)
next
  case (Cons c cs)
  show ?case
  proof (cases "prefix pat (c # cs)")
    case True
    then show ?thesis by (rule set_mono_prefix)
  next
    case False
    then have "after_first pat cs = Some r" using Cons.prems by simp
    then have "set pat \<subseteq> set cs" by (rule Cons.IH)
    then show ?thesis by auto
  qed
qed

lemma split_at_fresh:
  "p \<notin> set a \<Longrightarrow> split_at (p # ps) (a @ (p # ps) @ b) = Some (a, b)"
proof (induction a)
  case Nil
  show ?case by simp
next
  case (Cons c a)
  then have "c \<noteq> p" and "p \<notin> set a" by auto
  then show ?case using Cons.IH by simp
qed

section \<open>Properties of the location effect and of the injected script\<close>




lemma no_capital_C_in_base_script: "CHR ''C'' \<notin> set (script_pre @ script_post)"
  by (simp only: script_pre_def script_post_def set_append Un_iff list.set insert_iff empty_iff
      char.inject simp_thms not_False_eq_True)

lemma script_override_base: "script_override evalNumber (script_pre @ script_post) = None"
proof -
  have "after_first ''const nativeCoords = { latitude: '' (script_pre @ script_post) = None"
  proof (cases "after_first ''const nativeCoords = { latitude: '' (script_pre @ script_post)")
    case None
    then show ?thesis .
  next
    case (Some r)
    then have "set ''const nativeCoords = { latitude: '' \<subseteq> set (script_pre @ script_post)"
      by (rule after_first_chars)
    then have "CHR ''C'' \<in> set (script_pre @ script_post)" by auto
    then show ?thesis using no_capital_C_in_base_script by simp
  qed
  then show ?thesis by (simp add: script_override_def)
qed






text \<open>
  No override is in force on the web platform, nor when the element was
  rendered before a coordinate was stored.
\<close>

lemma no_override_on_web:
  "installed_override evalNumber (PRxWidget ''web'' numToString widgetId st) = None"
  by (simp add: PRxWidget_def)

lemma no_override_without_coordinate:
  "userLocation st = None \<Longrightarrow>
   installed_override evalNumber (PRxWidget platform_OS numToString widgetId st) = None"
  by (simp add: PRxWidget_def getInjectedJavaScript_def locationOverride_def script_override_base)

text \<open>Without the override, the injected script does not mention geolocation.\<close>

lemma no_geolocation_in_base_script:
  "\<not> includes_str (script_pre @ script_post) ''geolocation''"
  by (simp add: script_pre_def script_post_def)

text \<open>
  Claim C6. When the permission request is rejected or answered with
  anything but \<open>granted\<close>, or the position fetch is rejected, the effect
  throws nothing, leaves the state as it was and at most logs the error; with
  no coordinate stored, the override text is empty, the injected script does
  not touch geolocation and installs no override, the document keeps its own
  \<open>getCurrentPosition\<close>, and the component renders as before.
\<close>

theorem C6_no_override_without_coordinate:
  assumes "permission = Rejected e
           \<or> (\<exists>status. permission = Fulfilled status \<and> status \<noteq> ''granted'')
           \<or> (permission = Fulfilled ''granted'' \<and> position = Rejected e)"
    and "userLocation st = None"
    and "locationEffect permission position st = (thrown, st1, effs)"
  shows "thrown = None \<and> st1 = st \<and> userLocation st1 = None
    \<and> (\<forall>eff \<in> set effs. \<exists>e. eff = ConsoleLog ''Location permission denied or error:'' e)
    \<and> locationOverride numToString st1 = []
    \<and> getInjectedJavaScript numToString st1 = script_pre @ script_post
    \<and> \<not> includes_str (getInjectedJavaScript numToString st1) ''geolocation''
    \<and> script_override evalNumber (getInjectedJavaScript numToString st1) = None
    \<and> installed_override evalNumber (PRxWidget platform_OS numToString widgetId st1) = None
    \<and> PRxWidget platform_OS numToString widgetId st1 = PRxWidget platform_OS numToString widgetId st"
proof -
  have a: "thrown = None \<and> st1 = st \<and>
     (\<forall>eff \<in> set effs. \<exists>e. eff = ConsoleLog ''Location permission denied or error:'' e)"
    using assms(1,3) by (auto simp: locationEffect_def locationEffect_try_def)
  have b: "getInjectedJavaScript numToString st = script_pre @ script_post"
    using assms(2) by (simp add: getInjectedJavaScript_def locationOverride_def)
  show ?thesis using a b assms(2) no_geolocation_in_base_script
    by (simp add: locationOverride_def script_override_base no_override_without_coordinate)
qed

theorem C6_no_override_without_coordinate_witness:
  "locationEffect (Fulfilled ''denied'') (Fulfilled (Finite 37, Finite (- 122))) initial_state
     = (None, initial_state, [])
   \<and> locationEffect (Fulfilled ''granted'') (Rejected (PlatformError ''timeout'')) initial_state
     = (None, initial_state,
        [ConsoleLog ''Location permission denied or error:'' (PlatformError ''timeout'')])
   \<and> userLocation initial_state = None
   \<and> installed_override example_evalNumber
         (PRxWidget ''ios'' example_numToString WIDGET_ID initial_state) = None
   \<and> script_override example_evalNumber
         (getInjectedJavaScript example_numToString initial_state) = None
   \<and> \<not> includes_str (getInjectedJavaScript example_numToString initial_state) ''geolocation''"
  using
    C6_no_override_without_coordinate
      [of "Fulfilled ''denied''" "PlatformError ''timeout''"
        "Fulfilled (Finite 37, Finite (- 122))" initial_state None initial_state "[]"
        example_numToString example_evalNumber "''ios''" WIDGET_ID]
    C6_no_override_without_coordinate
      [of "Fulfilled ''granted''" "PlatformError ''timeout''"
        "Rejected (PlatformError ''timeout'')" initial_state None initial_state
        "[ConsoleLog ''Location permission denied or error:'' (PlatformError ''timeout'')]"
        example_numToString example_evalNumber "''ios''" WIDGET_ID]
  by (simp add: locationEffect_def locationEffect_try_def initial_state_def)

section \<open>Properties of the markup\<close>

text \<open>
  The configuration block of a markup is the text between the head and the
  first end tag, and the reader goes through the fixed parts of the block as
  follows.
\<close>

lemma open_tag_ends_head:
  \<open>after_first ''<script type="application/json" data-prxengage-config>'' html_head = Some []\<close>
  by (simp only: html_head_def after_first.simps append.simps
      Cons_prefix_Cons Nil_prefix prefix_Nil char.inject list.inject simp_thms if_True if_False
      list.distinct list.size drop_Suc_Cons drop_0 add_Suc add_0 One_nat_def)

lemma config_block_cut:
  assumes "CHR ''<'' \<notin> set content"
  shows \<open>config_block (html_head @ content @ ''</script>'' @ t) = Some content\<close>
proof -
  have a: \<open>after_first ''<script type="application/json" data-prxengage-config>''
             (html_head @ content @ ''</script>'' @ t) = Some (content @ ''</script>'' @ t)\<close>
    using after_first_append [OF open_tag_ends_head, of \<open>content @ ''</script>'' @ t\<close>] by simp
  have b: \<open>split_at ''</script>'' (content @ ''</script>'' @ t) = Some (content, t)\<close>
    using split_at_fresh [OF assms, of \<open>''/script>''\<close> t] by simp
  show ?thesis unfolding config_block_def by (simp only: a b option.case prod.case)
qed

lemma html_tail_end_tag: \<open>\<exists>t. html_tail = ''</script>'' @ t\<close>
  by (simp add: html_tail_def)

lemma config_block_html:
  assumes "\<forall>c \<in> set widgetId. plain_char c"
  shows "config_block (html widgetId) = Some (config_pre @ widgetId @ config_post)"
proof -
  obtain t where t: \<open>html_tail = ''</script>'' @ t\<close> using html_tail_end_tag by blast
  have fresh: "CHR ''<'' \<notin> set (config_pre @ widgetId @ config_post)"
    using assms by (auto simp: config_pre_def config_post_def plain_char_def)
  have \<open>html widgetId = html_head @ (config_pre @ widgetId @ config_post) @ ''</script>'' @ t\<close>
    by (simp add: html_def t)
  then show ?thesis using config_block_cut [OF fresh] by simp
qed

lemma json_value_plain:
  "\<forall>c \<in> set w. plain_char c \<Longrightarrow>
   foldl json_step (JValue, buf, key, ms) w = (JValue, buf @ w, key, ms)"
  by (induction w arbitrary: buf) (simp_all add: plain_char_def)

lemma json_fail_stays: "foldl json_step (JFail, buf, key, ms) s = (JFail, buf, key, ms)"
  by (induction s) simp_all

lemma read_config_pre:
  "foldl json_step (JBegin, [], [], []) config_pre = (JValue, [], ''widget_id'', [])"
  by (simp add: config_pre_def json_ws_def json_control_def)

lemma read_config_post:
  "foldl json_step (JValue, v, ''widget_id'', []) config_post =
             (JDone, [], ''container_style'',
              [(''widget_id'', v),
               (''consent_position'', ''above-condition''),
               (''button_background_color'', ''#233b65''),
               (''text_accent_color'', ''#120c0e''),
               (''max_height_mode'', ''fill''),
               (''container_style'', ''none'')])"
  by (simp add: config_post_def json_ws_def json_control_def)

text \<open>
  Claim C7, as stated: for every identifier, the configuration block holds
  exactly that identifier as its \<open>widget_id\<close> value. The template puts the
  identifier between the quotes unescaped, so it fails for an identifier with
  a backslash: for the four characters a, backslash, n, b the block is JSON
  whose \<open>widget_id\<close> value is the three characters a, line feed, b. With a
  quote in the identifier the block is no JSON object at all, and with an end
  tag in it the block ends inside the identifier.
\<close>

theorem C7_escape_changes_widget_id:
  \<open>embedded_config (html (''a'' @ [CHR 0x5C] @ ''nb'')) =
           Some [(''widget_id'', ''a\<newline>b''),
                 (''consent_position'', ''above-condition''),
                 (''button_background_color'', ''#233b65''),
                 (''text_accent_color'', ''#120c0e''),
                 (''max_height_mode'', ''fill''),
                 (''container_style'', ''none'')]
   \<and> ''a\<newline>b'' \<noteq> ''a'' @ [CHR 0x5C] @ ''nb''
   \<and> embedded_config (html (''a'' @ [CHR 0x22] @ ''b'')) = None
   \<and> config_block (html ''a</script>b'') = Some (''{\<newline>  "widget_id": "a'')\<close>
proof -
  obtain t where t: \<open>html_tail = ''</script>'' @ t\<close> using html_tail_end_tag by blast
  have f1: "CHR ''<'' \<notin> set (config_pre @ (''a'' @ [CHR 0x5C] @ ''nb'') @ config_post)"
    by (simp add: config_pre_def config_post_def)
  have \<open>html (''a'' @ [CHR 0x5C] @ ''nb'') =
          html_head @ (config_pre @ (''a'' @ [CHR 0x5C] @ ''nb'') @ config_post) @ ''</script>'' @ t\<close>
    by (simp add: html_def t)
  then have b1: "config_block (html (''a'' @ [CHR 0x5C] @ ''nb'')) =
          Some (config_pre @ (''a'' @ [CHR 0x5C] @ ''nb'') @ config_post)"
    using config_block_cut [OF f1] by simp
  have r1: "foldl json_step (JBegin, [], [], []) (config_pre @ (''a'' @ [CHR 0x5C] @ ''nb'') @ config_post) =
             (JDone, [], ''container_style'',
              [(''widget_id'', ''a\<newline>b''),
               (''consent_position'', ''above-condition''),
               (''button_background_color'', ''#233b65''),
               (''text_accent_color'', ''#120c0e''),
               (''max_height_mode'', ''fill''),
               (''container_style'', ''none'')])"
    by (simp add: read_config_pre read_config_post json_control_def json_unescape_def)
  have c1: "embedded_config (html (''a'' @ [CHR 0x5C] @ ''nb'')) =
           Some [(''widget_id'', ''a\<newline>b''),
                 (''consent_position'', ''above-condition''),
                 (''button_background_color'', ''#233b65''),
                 (''text_accent_color'', ''#120c0e''),
                 (''max_height_mode'', ''fill''),
                 (''container_style'', ''none'')]"
    by (simp only: embedded_config_def b1 option.case read_string_object_def r1 prod.case if_True
        simp_thms)
  have f2: "CHR ''<'' \<notin> set (config_pre @ (''a'' @ [CHR 0x22] @ ''b'') @ config_post)"
    by (simp add: config_pre_def config_post_def)
  have \<open>html (''a'' @ [CHR 0x22] @ ''b'') =
          html_head @ (config_pre @ (''a'' @ [CHR 0x22] @ ''b'') @ config_post) @ ''</script>'' @ t\<close>
    by (simp add: html_def t)
  then have b2: "config_block (html (''a'' @ [CHR 0x22] @ ''b'')) =
          Some (config_pre @ (''a'' @ [CHR 0x22] @ ''b'') @ config_post)"
    using config_block_cut [OF f2] by simp
  have r2: "foldl json_step (JBegin, [], [], []) (config_pre @ (''a'' @ [CHR 0x22] @ ''b'') @ config_post)
             = (JFail, [], ''widget_id'', [(''widget_id'', ''a'')])"
    by (simp add: read_config_pre json_fail_stays json_control_def json_ws_def)
  have c2: "embedded_config (html (''a'' @ [CHR 0x22] @ ''b'')) = None"
    by (simp only: embedded_config_def b2 option.case read_string_object_def r2 prod.case
        json_mode.distinct if_False)
  have f3: \<open>CHR ''<'' \<notin> set (config_pre @ ''a'')\<close>
    by (simp add: config_pre_def)
  have \<open>html ''a</script>b'' =
          html_head @ (config_pre @ ''a'') @ ''</script>'' @ (''b'' @ config_post @ html_tail)\<close>
    by (simp add: html_def)
  then have \<open>config_block (html ''a</script>b'') = Some (config_pre @ ''a'')\<close>
    using config_block_cut [OF f3] by simp
  then have c3: \<open>config_block (html ''a</script>b'') = Some (''{\<newline>  "widget_id": "a'')\<close>
    by (simp add: config_pre_def)
  show ?thesis using c1 c2 c3 by simp
qed

text \<open>
  Claim C7, amended: for every identifier that has no double quote, no
  backslash, no control character and no \<open><\<close>, the configuration block
  embedded in the markup is a JSON object whose \<open>widget_id\<close> value is
  exactly that identifier, together with the five fixed presentation options.
\<close>

theorem C7_plain_identifier_is_widget_id:
  assumes "\<forall>c \<in> set widgetId. plain_char c"
  shows "embedded_config (html widgetId) =
           Some [(''widget_id'', widgetId),
                 (''consent_position'', ''above-condition''),
                 (''button_background_color'', ''#233b65''),
                 (''text_accent_color'', ''#120c0e''),
                 (''max_height_mode'', ''fill''),
                 (''container_style'', ''none'')]
     \<and> map_option (member_value ''widget_id'') (embedded_config (html widgetId))
           = Some (Some widgetId)"
proof -
  have "foldl json_step (JBegin, [], [], []) (config_pre @ widgetId @ config_post) =
             (JDone, [], ''container_style'',
              [(''widget_id'', widgetId),
               (''consent_position'', ''above-condition''),
               (''button_background_color'', ''#233b65''),
               (''text_accent_color'', ''#120c0e''),
               (''max_height_mode'', ''fill''),
               (''container_style'', ''none'')])"
    using json_value_plain [OF assms, of "[]" "''widget_id''" "[]"]
    by (simp add: read_config_pre read_config_post)
  then show ?thesis
    by (simp add: embedded_config_def config_block_html [OF assms] read_string_object_def
        member_value_def)
qed

theorem C7_plain_identifier_is_widget_id_witness:
  "embedded_config (html WIDGET_ID) =
           Some [(''widget_id'', ''dd0ed535-3143-4209-876d-8779f0cde888''),
                 (''consent_position'', ''above-condition''),
                 (''button_background_color'', ''#233b65''),
                 (''text_accent_color'', ''#120c0e''),
                 (''max_height_mode'', ''fill''),
                 (''container_style'', ''none'')]"
  using C7_plain_identifier_is_widget_id [of WIDGET_ID]
  by (simp add: WIDGET_ID_def plain_char_def json_control_def)

section \<open>Properties of a component instance over its lifetime\<close>

lemma handleMessage_loading:
  "handleMessage JSON_parse opener st msg = (thrown, st1, effs) \<Longrightarrow> loading st1 = loading st"
  by (auto simp: handleMessage_def handleMessage_try_def resize_branch_def
      split: option.splits sum.splits if_splits)

lemma locationEffect_loading:
  "locationEffect permission position st = (thrown, st1, effs) \<Longrightarrow> loading st1 = loading st"
  by (auto simp: locationEffect_def locationEffect_try_def
      split: promise.splits sum.splits if_splits)

lemma handle_event_loading:
  "ev \<noteq> LoadEnd \<Longrightarrow> loading (fst (handle_event JSON_parse opener st ev)) = loading st"
  by (cases ev) (auto split: prod.splits dest: handleMessage_loading locationEffect_loading)

lemma handle_event_not_loading:
  "\<not> loading st \<Longrightarrow> \<not> loading (fst (handle_event JSON_parse opener st ev))"
  by (cases "ev = LoadEnd") (simp_all add: handle_event_loading)

lemma deliver_not_loading:
  "\<not> loading st \<Longrightarrow>
   \<not> loading (fst (deliver platform_OS numToString widgetId JSON_parse opener st ev))"
  by (simp add: deliver_def handle_event_not_loading split: option.splits)

lemma deliver_loading:
  "ev \<noteq> LoadEnd \<Longrightarrow>
   loading (fst (deliver platform_OS numToString widgetId JSON_parse opener st ev)) = loading st"
  by (simp add: deliver_def handle_event_loading split: option.splits)

lemma run_not_loading:
  "\<not> loading st \<Longrightarrow>
   \<not> loading (fst (run platform_OS numToString widgetId JSON_parse opener st evs))"
proof (induction evs arbitrary: st)
  case Nil
  then show ?case by simp
next
  case (Cons ev evs)
  obtain st1 effs1
    where d: "deliver platform_OS numToString widgetId JSON_parse opener st ev = (st1, effs1)"
    by (cases "deliver platform_OS numToString widgetId JSON_parse opener st ev")
  have "\<not> loading st1"
    using deliver_not_loading [OF Cons.prems, of platform_OS numToString widgetId JSON_parse opener ev] d
    by simp
  then have "\<not> loading (fst (run platform_OS numToString widgetId JSON_parse opener st1 evs))"
    by (rule Cons.IH)
  then show ?case using d by (auto split: prod.splits)
qed

lemma run_still_loading:
  "LoadEnd \<notin> set evs \<Longrightarrow>
   loading (fst (run platform_OS numToString widgetId JSON_parse opener st evs)) = loading st"
proof (induction evs arbitrary: st)
  case Nil
  then show ?case by simp
next
  case (Cons ev evs)
  obtain st1 effs1
    where d: "deliver platform_OS numToString widgetId JSON_parse opener st ev = (st1, effs1)"
    by (cases "deliver platform_OS numToString widgetId JSON_parse opener st ev")
  have "ev \<noteq> LoadEnd" using Cons.prems by auto
  then have "loading st1 = loading st"
    using deliver_loading [of ev platform_OS numToString widgetId JSON_parse opener st] d by simp
  moreover have
    "loading (fst (run platform_OS numToString widgetId JSON_parse opener st1 evs)) = loading st1"
    using Cons.prems by (intro Cons.IH) auto
  ultimately show ?case using d by (auto split: prod.splits)
qed

lemma deliver_LoadEnd_native:
  "platform_OS \<noteq> ''web'' \<Longrightarrow>
   deliver platform_OS numToString widgetId JSON_parse opener st LoadEnd =
     (st\<lparr>loading := False\<rparr>, [])"
  by (simp add: deliver_def PRxWidget_def)

text \<open>
  Claim C8. The loading flag is true on mount and stays true while no load
  end is reported; the WebView's report of a load end makes it false; and
  from a state where it is false, no sequence of events of any kind makes it
  true again.
\<close>

theorem C8_loading_never_returns:
  "loading initial_state
   \<and> (LoadEnd \<notin> set evs0 \<longrightarrow>
        loading (fst (run platform_OS numToString widgetId JSON_parse opener initial_state evs0)))
   \<and> (platform_OS \<noteq> ''web'' \<longrightarrow>
        \<not> loading (fst (deliver platform_OS numToString widgetId JSON_parse opener st LoadEnd)))
   \<and> (\<not> loading st \<longrightarrow>
        \<not> loading (fst (run platform_OS numToString widgetId JSON_parse opener st evs)))"
  using run_still_loading [of evs0 platform_OS numToString widgetId JSON_parse opener initial_state]
  by (simp add: run_not_loading deliver_LoadEnd_native initial_state_def)

theorem C8_loading_never_returns_witness:
  \<open>loading initial_state
   \<and> loading (fst (run ''ios'' example_numToString WIDGET_ID example_parse accepting_opener
        initial_state [Message ''{"type":"resize","height":842}'']))
   \<and> \<not> loading (fst (deliver ''ios'' example_numToString WIDGET_ID example_parse accepting_opener
        initial_state LoadEnd))
   \<and> \<not> loading (fst (run ''ios'' example_numToString WIDGET_ID example_parse accepting_opener
        (initial_state\<lparr>loading := False\<rparr>)
        [Message ''{"type":"resize","height":842}'',
         NavigationRequest ''https://evil.example.com'',
         LocationSettled (Fulfilled ''granted'') (Fulfilled (Finite 37, Finite (- 122))),
         LoadEnd,
         Message ''not json'']))\<close>
  using C8_loading_never_returns
      [of \<open>[Message ''{"type":"resize","height":842}'']\<close> "''ios''" example_numToString WIDGET_ID
        example_parse accepting_opener initial_state "[]"]
    C8_loading_never_returns
      [of "[]" "''ios''" example_numToString WIDGET_ID example_parse accepting_opener
        "initial_state\<lparr>loading := False\<rparr>"
        \<open>[Message ''{"type":"resize","height":842}'',
         NavigationRequest ''https://evil.example.com'',
         LocationSettled (Fulfilled ''granted'') (Fulfilled (Finite 37, Finite (- 122))),
         LoadEnd,
         Message ''not json'']\<close>]
  by simp

section \<open>The web platform\<close>

lemma deliver_web:
  "deliver ''web'' numToString widgetId JSON_parse opener st ev =
     (case ev of
        LocationSettled permission position \<Rightarrow> handle_event JSON_parse opener st ev
      | _ \<Rightarrow> (st, []))"
  by (cases ev) (simp_all add: deliver_def PRxWidget_def)

lemma locationEffect_height:
  "locationEffect permission position st = (thrown, st1, effs) \<Longrightarrow>
   height st1 = height st \<and> OpenURL u \<notin> set effs"
  by (auto simp: locationEffect_def locationEffect_try_def
      split: promise.splits sum.splits if_splits)

lemma deliver_web_height:
  "deliver ''web'' numToString widgetId JSON_parse opener st ev = (st1, effs) \<Longrightarrow>
   height st1 = height st \<and> OpenURL u \<notin> set effs"
  by (cases ev) (auto simp: deliver_web split: prod.splits dest: locationEffect_height)

lemma run_web_height:
  "run ''web'' numToString widgetId JSON_parse opener st evs = (st2, effs) \<Longrightarrow>
   height st2 = height st \<and> OpenURL u \<notin> set effs"
proof (induction evs arbitrary: st st2 effs)
  case Nil
  then show ?case by simp
next
  case (Cons ev evs)
  obtain st1 effs1
    where d: "deliver ''web'' numToString widgetId JSON_parse opener st ev = (st1, effs1)"
    by (cases "deliver ''web'' numToString widgetId JSON_parse opener st ev")
  obtain st' effs'
    where r: "run ''web'' numToString widgetId JSON_parse opener st1 evs = (st', effs')"
    by (cases "run ''web'' numToString widgetId JSON_parse opener st1 evs")
  have e: "st2 = st'" "effs = effs1 @ effs'" using Cons.prems d r by simp_all
  have "height st1 = height st \<and> OpenURL u \<notin> set effs1" using d by (rule deliver_web_height)
  moreover have "height st' = height st1 \<and> OpenURL u \<notin> set effs'" using r by (rule Cons.IH)
  ultimately show ?case using e by simp
qed

text \<open>
  Claim C10. On the web platform the component returns the inline frame with
  the markup and the height 700, whatever its state, so neither the height
  cell nor its initial 600 reaches the output. The frame is given no handler
  prop: a message is delivered to no handler, and over any sequence of events
  the height cell keeps its value and no external-open request is made.
\<close>

theorem C10_web_inline_frame:
  "PRxWidget ''web'' numToString widgetId st =
     IFrame (html widgetId) 700 ''PRx Widget'' ''geolocation''
   \<and> handler_props (PRxWidget ''web'' numToString widgetId st) = []
   \<and> deliver ''web'' numToString widgetId JSON_parse opener st (Message msg) = (st, [])
   \<and> height (fst (run ''web'' numToString widgetId JSON_parse opener st evs)) = height st
   \<and> OpenURL u \<notin> set (snd (run ''web'' numToString widgetId JSON_parse opener st evs))"
  using run_web_height [of numToString widgetId JSON_parse opener st evs
      "fst (run ''web'' numToString widgetId JSON_parse opener st evs)"
      "snd (run ''web'' numToString widgetId JSON_parse opener st evs)" u]
  by (simp add: PRxWidget_def deliver_web)

theorem C10_web_inline_frame_witness:
  \<open>PRxWidget ''web'' example_numToString WIDGET_ID (initial_state\<lparr>height := JNum (Finite 842)\<rparr>) =
     IFrame (html WIDGET_ID) 700 ''PRx Widget'' ''geolocation''
   \<and> deliver ''web'' example_numToString WIDGET_ID example_parse accepting_opener initial_state
       (Message ''{"type":"resize","height":842}'') = (initial_state, [])
   \<and> height (fst (run ''web'' example_numToString WIDGET_ID example_parse accepting_opener
        initial_state
        [Message ''{"type":"resize","height":842}'',
         Message ''{"type":"external_link","url":"https://example.com/x"}''])) = JNum (Finite 600)\<close>
  using C10_web_inline_frame
      [of example_numToString WIDGET_ID "initial_state\<lparr>height := JNum (Finite 842)\<rparr>"
        example_parse accepting_opener \<open>''{"type":"resize","height":842}''\<close> "[]" "JStr ''https://example.com/x''"]
    C10_web_inline_frame
      [of example_numToString WIDGET_ID initial_state
        example_parse accepting_opener \<open>''{"type":"resize","height":842}''\<close>
        \<open>[Message ''{"type":"resize","height":842}'',
         Message ''{"type":"external_link","url":"https://example.com/x"}'']\<close>
        "JStr ''https://example.com/x''"]
  by (simp add: initial_state_def del: run.simps)

end
